theory Spec2Isabelle
  imports Complex_Main
begin

section \<open>Python values, NumPy arrays and exceptions\<close>

text \<open>
  The package \<^verbatim>\<open>rampedpyrox\<close> computes with NumPy arrays of floats. Array elements are
  modelled by exact reals. Where the source documents non-finite results (the quotient of
  two gradients in \<^verbatim>\<open>derivatize\<close>) and where the range of a float decides a property (the
  isotope scales), values have the type \<open>npfloat\<close>, which keeps NumPy's outcome of a
  division by zero and of an overflow. A 2-d array carries its number of columns, so that
  the shape of an array without rows is still known.

  Every exception the source raises (or that NumPy and pandas raise on its behalf) is a
  value of type \<open>error\<close>; a function that can raise returns \<open>error + 'a\<close>.
\<close>

datatype error =
    ArrayError string
  | LengthError nat int
  | ValueError string
  | TypeError string
  | AttributeError string
  | IndexError string
  | ZeroDivisionError string
  | OverflowError string

text \<open>
  A float result: a finite value, an infinity or not-a-number. Rounding to the nearest
  float is left out (a finite result is the exact one); the range is kept. In IEEE 754
  double precision, rounding to nearest, a result overflows to an infinity exactly when
  its exact value reaches \<open>2^1024 - 2^970\<close> in magnitude, half a unit in the last place
  above the largest float.
\<close>

datatype npfloat = Finite real | PosInf | NegInf | NaN

definition float_overflow :: real where
  "float_overflow = 2 ^ 1024 - 2 ^ 970"

definition float64_of :: "real \<Rightarrow> npfloat" where
  "float64_of x =
     (if float_overflow \<le> x then PosInf
      else if x \<le> - float_overflow then NegInf
      else Finite x)"

datatype mat = Mat (ncols: nat) (rows: "real list list")

datatype ndarray = Arr1 "real list" | Arr2 mat

text \<open>
  The arguments the helpers of \<^verbatim>\<open>core_functions.py\<close> dispatch on: a Python \<^verbatim>\<open>int\<close> (of
  any size), a finite Python \<^verbatim>\<open>float\<close>, a \<^verbatim>\<open>str\<close>, a list or tuple of numbers within the
  float range, a 0-d array or a NumPy scalar that is no Python number (\<^verbatim>\<open>np.array(2.0)\<close>,
  \<^verbatim>\<open>np.float32(2)\<close>: it has \<^verbatim>\<open>__array__\<close> and no \<^verbatim>\<open>len\<close>), a 1-d or 2-d array, and any
  other object.
\<close>

datatype pydata =
    PyInt int
  | PyFloat real
  | PyStr string
  | PySeq "real list"
  | Nd0 real
  | Nd ndarray
  | PyObj

fun is_number :: "pydata \<Rightarrow> bool" where
  "is_number (PyInt k) = True"
| "is_number (PyFloat v) = True"
| "is_number d = False"

fun is_str :: "pydata \<Rightarrow> bool" where
  "is_str (PyStr s) = True"
| "is_str d = False"

fun is_Sequence :: "pydata \<Rightarrow> bool" where
  "is_Sequence (PyStr s) = True"
| "is_Sequence (PySeq xs) = True"
| "is_Sequence d = False"

fun has_array :: "pydata \<Rightarrow> bool" where
  "has_array (Nd0 v) = True"
| "has_array (Nd a) = True"
| "has_array d = False"

fun nd_len :: "ndarray \<Rightarrow> nat" where
  "nd_len (Arr1 xs) = length xs"
| "nd_len (Arr2 m) = length (rows m)"

fun py_len :: "pydata \<Rightarrow> error + nat" where
  "py_len (PyStr s) = Inr (length s)"
| "py_len (PySeq xs) = Inr (length xs)"
| "py_len (Nd a) = Inr (nd_len a)"
| "py_len (Nd0 v) = Inl (TypeError ''len() of unsized object'')"
| "py_len (PyInt k) = Inl (TypeError ''object has no len()'')"
| "py_len (PyFloat v) = Inl (TypeError ''object has no len()'')"
| "py_len PyObj = Inl (TypeError ''object has no len()'')"

text \<open>
  \<^verbatim>\<open>data*np.ones(n)\<close>: \<^verbatim>\<open>np.ones\<close> rejects a negative length, and a Python \<^verbatim>\<open>int\<close> too
  large for a float cannot be multiplied with the ones (the product is taken element by
  element, so an array without elements raises nothing).
\<close>

fun scalar_times_ones :: "pydata \<Rightarrow> int \<Rightarrow> error + ndarray" where
  "scalar_times_ones (PyFloat v) n =
     (if n < 0 then Inl (ValueError ''negative dimensions are not allowed'')
      else Inr (Arr1 (replicate (nat n) v)))"
| "scalar_times_ones (PyInt k) n =
     (if n < 0 then Inl (ValueError ''negative dimensions are not allowed'')
      else if 0 < n \<and> float_overflow \<le> \<bar>of_int k\<bar>
      then Inl (OverflowError ''int too large to convert to float'')
      else Inr (Arr1 (replicate (nat n) (of_int k))))"
| "scalar_times_ones d n = Inl (TypeError ''unsupported operand type(s) for *'')"

text \<open>
  \<^verbatim>\<open>np.array(data).astype(float)\<close> on the data that reach the last line of \<^verbatim>\<open>assert_len\<close>
  unchanged: a sequence of numbers or an array with a length. (A scalar has become an
  array before, and nothing else gets that far.)
\<close>

fun np_array_float :: "pydata \<Rightarrow> error + ndarray" where
  "np_array_float (PySeq xs) = Inr (Arr1 xs)"
| "np_array_float (Nd a) = Inr a"
| "np_array_float d = Inl (ValueError ''could not convert to float'')"

section \<open>\<^verbatim>\<open>core_functions.py\<close>\<close>

subsection \<open>\<^verbatim>\<open>assert_len\<close>\<close>

definition assert_len :: "pydata \<Rightarrow> int \<Rightarrow> error + ndarray" where
  "assert_len data n =
     (if is_number data then scalar_times_ones data n
      else if is_Sequence data \<or> has_array data then
        (if is_str data then Inl (ArrayError ''Data cannot be a string'')
         else case py_len data of
                Inl e \<Rightarrow> Inl e
              | Inr l \<Rightarrow>
                  if int l \<noteq> n then Inl (LengthError l n)
                  else np_array_float data)
      else Inl (ArrayError ''data must be scalar or array-like''))"

subsection \<open>\<^verbatim>\<open>calc_L_curve\<close>\<close>

text \<open>
  The package-level function only delegates to the method \<^verbatim>\<open>model.calc_L_curve\<close>, which is
  not part of it: the method is a parameter, called with the time data and a record of
  its keyword arguments.
\<close>

record 'ax L_curve_kwargs =
  kw_ax :: "'ax option"
  kw_plot :: bool
  kw_nOm :: int
  kw_om_max :: real
  kw_om_min :: real

definition calc_L_curve ::
  "('td \<Rightarrow> 'ax L_curve_kwargs \<Rightarrow> 'r) \<Rightarrow> 'td \<Rightarrow> 'ax option \<Rightarrow> bool \<Rightarrow> int \<Rightarrow> real \<Rightarrow> real \<Rightarrow> 'r" where
  "calc_L_curve model_calc_L_curve timedata ax plot nOm om_max om_min =
     model_calc_L_curve timedata
       \<lparr>kw_ax = ax, kw_plot = plot, kw_nOm = nOm, kw_om_max = om_max, kw_om_min = om_max\<rparr>"

subsection \<open>\<^verbatim>\<open>np.gradient\<close> and \<^verbatim>\<open>derivatize\<close>\<close>

text \<open>
  \<^verbatim>\<open>np.gradient\<close> with unit spacing: one-sided differences at both ends, central
  differences inside, and a \<^verbatim>\<open>ValueError\<close> for an axis shorter than two.
\<close>

definition grad_at :: "'a list \<Rightarrow> ('a \<Rightarrow> 'a \<Rightarrow> 'a) \<Rightarrow> ('a \<Rightarrow> 'a) \<Rightarrow> nat \<Rightarrow> 'a" where
  "grad_at y sub half i =
     (if i = 0 then sub (y ! 1) (y ! 0)
      else if i = length y - 1 then sub (y ! (length y - 1)) (y ! (length y - 2))
      else half (sub (y ! (i + 1)) (y ! (i - 1))))"

definition np_gradient :: "real list \<Rightarrow> error + real list" where
  "np_gradient y =
     (if length y < 2
      then Inl (ValueError ''Shape of array too small to calculate a numerical gradient'')
      else Inr (map (grad_at y (\<lambda>a b. a - b) (\<lambda>a. a / 2)) [0..<length y]))"

definition vsub :: "real list \<Rightarrow> real list \<Rightarrow> real list" where
  "vsub a b = map2 (\<lambda>x y. x - y) a b"

definition vhalf :: "real list \<Rightarrow> real list" where
  "vhalf a = map (\<lambda>x. x / 2) a"

text \<open>\<^verbatim>\<open>np.gradient(m, axis=0)\<close>: the same differences, taken between rows.\<close>

definition np_gradient_axis0 :: "mat \<Rightarrow> error + mat" where
  "np_gradient_axis0 m =
     (if length (rows m) < 2
      then Inl (ValueError ''Shape of array too small to calculate a numerical gradient'')
      else Inr (Mat (ncols m) (map (grad_at (rows m) vsub vhalf) [0..<length (rows m)])))"

text \<open>
  \<^verbatim>\<open>np.gradient(m)[0]\<close>: without \<^verbatim>\<open>axis\<close> the gradient is taken along both axes before
  the first is selected, so both must have two entries.
\<close>

definition np_gradient_all_0 :: "mat \<Rightarrow> error + mat" where
  "np_gradient_all_0 m =
     (if length (rows m) < 2 \<or> ncols m < 2
      then Inl (ValueError ''Shape of array too small to calculate a numerical gradient'')
      else np_gradient_axis0 m)"

text \<open>Float division of finite values: NumPy warns on a zero divisor and returns inf or nan.\<close>

definition np_divide :: "real \<Rightarrow> real \<Rightarrow> npfloat" where
  "np_divide a b =
     (if b \<noteq> 0 then float64_of (a / b)
      else if 0 < a then PosInf else if a < 0 then NegInf else NaN)"

datatype dresult = D1 "npfloat list" | D2 "npfloat list list"

definition mat_cols :: "mat \<Rightarrow> real list list" where
  "mat_cols m = map (\<lambda>j. map (\<lambda>r. r ! j) (rows m)) [0..<ncols m]"

fun sequence_err :: "(error + 'a) list \<Rightarrow> error + 'a list" where
  "sequence_err [] = Inr []"
| "sequence_err (Inl e # rs) = Inl e"
| "sequence_err (Inr x # rs) = (case sequence_err rs of Inl e \<Rightarrow> Inl e | Inr xs \<Rightarrow> Inr (x # xs))"

text \<open>\<^verbatim>\<open>np.column_stack\<close> of 1-d arrays of one length \<open>n\<close>.\<close>

definition column_stack :: "nat \<Rightarrow> 'a list list \<Rightarrow> error + 'a list list" where
  "column_stack n cols =
     (if cols = [] then Inl (ValueError ''need at least one array to concatenate'')
      else if list_ex (\<lambda>c. length c \<noteq> n) cols
      then Inl (ValueError ''all the input array dimensions must match exactly'')
      else Inr (map (\<lambda>i. map (\<lambda>c. c ! i) cols) [0..<n]))"

text \<open>
  \<^verbatim>\<open>derivatize\<close> calls itself once per column when one argument is 2-d and the other
  1-d; both arguments of such a call are 1-d arrays. \<open>derivatize_1d\<close> is the body of
  \<^verbatim>\<open>derivatize\<close> on two 1-d arrays: the type check passes, \<^verbatim>\<open>assert_len\<close> compares the
  lengths, and the first branch divides the gradients.
\<close>

definition derivatize_1d :: "real list \<Rightarrow> real list \<Rightarrow> error + npfloat list" where
  "derivatize_1d num denom =
     (case assert_len (Nd (Arr1 num)) (int (length denom)) of
        Inl e \<Rightarrow> Inl e
      | Inr a \<Rightarrow>
          (case np_gradient num of
             Inl e \<Rightarrow> Inl e
           | Inr gn \<Rightarrow>
               (case np_gradient denom of
                  Inl e \<Rightarrow> Inl e
                | Inr gd \<Rightarrow> Inr (map2 np_divide gn gd))))"

definition derivatize_dims :: "ndarray \<Rightarrow> ndarray \<Rightarrow> error + dresult" where
  "derivatize_dims num denom =
     (case (num, denom) of
        (Arr1 a, Arr1 b) \<Rightarrow>
          (case np_gradient a of
             Inl e \<Rightarrow> Inl e
           | Inr gn \<Rightarrow>
               (case np_gradient b of
                  Inl e \<Rightarrow> Inl e
                | Inr gd \<Rightarrow> Inr (D1 (map2 np_divide gn gd))))
      | (Arr2 a, Arr2 b) \<Rightarrow>
          (case np_gradient_all_0 a of
             Inl e \<Rightarrow> Inl e
           | Inr gn \<Rightarrow>
               (case np_gradient_all_0 b of
                  Inl e \<Rightarrow> Inl e
                | Inr gd \<Rightarrow>
                    if ncols gn \<noteq> ncols gd
                    then Inl (ValueError ''operands could not be broadcast together'')
                    else Inr (D2 (map2 (map2 np_divide) (rows gn) (rows gd)))))
      | (Arr2 a, Arr1 b) \<Rightarrow>
          (case sequence_err (map (\<lambda>col. derivatize_1d col b) (mat_cols a)) of
             Inl e \<Rightarrow> Inl e
           | Inr col_der \<Rightarrow>
               (case column_stack (length b) col_der of
                  Inl e \<Rightarrow> Inl e
                | Inr dndd \<Rightarrow> Inr (D2 dndd)))
      | (Arr1 a, Arr2 b) \<Rightarrow>
          (case sequence_err (map (\<lambda>col. derivatize_1d a col) (mat_cols b)) of
             Inl e \<Rightarrow> Inl e
           | Inr col_der \<Rightarrow>
               (case column_stack (length (rows b)) col_der of
                  Inl e \<Rightarrow> Inl e
                | Inr dndd \<Rightarrow> Inr (D2 dndd))))"

definition derivatize :: "pydata \<Rightarrow> pydata \<Rightarrow> error + dresult" where
  "derivatize num denom =
     (if is_Sequence denom \<or> has_array denom then
        (if is_str denom then Inl (ArrayError ''denom cannot be a string'')
         else case py_len denom of
                Inl e \<Rightarrow> Inl e
              | Inr n \<Rightarrow>
                  (case assert_len num (int n) of
                     Inl e \<Rightarrow> Inl e
                   | Inr num' \<Rightarrow>
                       (case denom of
                          Nd d \<Rightarrow> derivatize_dims num' d
                        | _ \<Rightarrow> Inl (AttributeError ''ndim''))))
      else Inl (ArrayError ''denom must be array-like''))"

section \<open>\<^verbatim>\<open>isotoperesult.py\<close>: isotope scales\<close>

definition Rpdb :: real where
  "Rpdb = 11237 / 1000000"

definition d13C_to_R13 :: "real \<Rightarrow> real" where
  "d13C_to_R13 d13C = (d13C / 1000 + 1) * Rpdb"

definition R13_to_d13C :: "real \<Rightarrow> real" where
  "R13_to_d13C R13 = (R13 / Rpdb - 1) * 1000"

text \<open>
  The two conversions above are the formulas over exact arithmetic. On floats each of
  their three operations can overflow. The operations on one float element: division by
  and multiplication with a positive constant, and addition of a constant; an infinity
  or a not-a-number stays what it is.
\<close>

fun np_div_const :: "npfloat \<Rightarrow> real \<Rightarrow> npfloat" where
  "np_div_const (Finite x) c = float64_of (x / c)"
| "np_div_const v c = v"

fun np_add_const :: "npfloat \<Rightarrow> real \<Rightarrow> npfloat" where
  "np_add_const (Finite x) c = float64_of (x + c)"
| "np_add_const v c = v"

fun np_mul_const :: "npfloat \<Rightarrow> real \<Rightarrow> npfloat" where
  "np_mul_const (Finite x) c = float64_of (x * c)"
| "np_mul_const v c = v"

definition d13C_to_R13_float64 :: "npfloat \<Rightarrow> npfloat" where
  "d13C_to_R13_float64 d13C = np_mul_const (np_add_const (np_div_const d13C 1000) 1) Rpdb"

definition R13_to_d13C_float64 :: "npfloat \<Rightarrow> npfloat" where
  "R13_to_d13C_float64 R13 = np_mul_const (np_add_const (np_div_const R13 Rpdb) (- 1)) 1000"

section \<open>\<^verbatim>\<open>isotoperesult.py\<close>: extracting the fractions\<close>

text \<open>
  The fraction table is a \<^verbatim>\<open>pandas.DataFrame\<close>: named columns of numbers over a shared
  index (every column is as long as the index). A \<^verbatim>\<open>DatetimeIndex\<close> holds timestamps,
  in nanoseconds; any other index is only known by its length. The argument
  \<^verbatim>\<open>sum_data\<close> is a path string, a frame, or something else. Reading a file
  (\<^verbatim>\<open>pd.DataFrame.from_csv\<close>) is a parameter, and so is the matrix that
  \<^verbatim>\<open>np.random.randn(nF,3)\<close> draws: \<open>randn i j\<close> is its entry in row \<open>i\<close>, column \<open>j\<close>.
\<close>

datatype pd_index = DatetimeIndex "int list" | OtherIndex nat

record dataframe =
  df_columns :: "(string \<times> real list) list"
  df_index :: pd_index

datatype sum_data = PathStr string | DataFrame dataframe | OtherData

text \<open>Lines 269-273.\<close>

fun load_frame :: "(string \<Rightarrow> error + dataframe) \<Rightarrow> sum_data \<Rightarrow> error + dataframe" where
  "load_frame from_csv (PathStr p) = from_csv p"
| "load_frame from_csv (DataFrame df) = Inr df"
| "load_frame from_csv OtherData = Inl (ValueError ''sum_data must be pd.DataFrame or path string'')"

text \<open>A Python string used as a condition is true when it is not empty.\<close>

definition py_truthy :: "string \<Rightarrow> bool" where
  "py_truthy s = (s \<noteq> [])"

text \<open>\<^verbatim>\<open>sum_data.name\<close>: the column of that name, or an \<^verbatim>\<open>AttributeError\<close>.\<close>

definition getattr_column :: "dataframe \<Rightarrow> string \<Rightarrow> error + real list" where
  "getattr_column df name =
     (case map_of (df_columns df) name of
        None \<Rightarrow> Inl (AttributeError name)
      | Some c \<Rightarrow> Inr c)"

definition series_at :: "real list \<Rightarrow> nat \<Rightarrow> error + real" where
  "series_at s i = (if i < length s then Inr (s ! i) else Inl (IndexError ''index out of bounds''))"

text \<open>Line 283: \<^verbatim>\<open>or\<close> looks at the second label only when the first is \<open>-1\<close>.\<close>

definition check_sentinels :: "real list \<Rightarrow> error + unit" where
  "check_sentinels fraction =
     (case series_at fraction 0 of
        Inl e \<Rightarrow> Inl e
      | Inr f0 \<Rightarrow>
          if f0 \<noteq> - 1 then Inl (ValueError ''First two rows must be fractions -1 and 0'')
          else (case series_at fraction 1 of
                  Inl e \<Rightarrow> Inl e
                | Inr f1 \<Rightarrow>
                    if f1 \<noteq> 0 then Inl (ValueError ''First two rows must be fractions -1 and 0'')
                    else Inr ()))"

text \<open>
  Line 287: the \<^verbatim>\<open>seconds\<close> component of each timestamp's distance to the first one
  (whole seconds within the day).
\<close>

definition elapsed_seconds :: "int list \<Rightarrow> error + real list" where
  "elapsed_seconds ts =
     (case ts of
        [] \<Rightarrow> Inl (IndexError ''index 0 is out of bounds for axis 0 with size 0'')
      | first # rest \<Rightarrow> Inr (map (\<lambda>x. of_int (((x - first) div 1000000000) mod 86400)) ts))"

text \<open>Lines 298-304: the standard deviations, three columns of \<open>nF\<close> entries each.\<close>

definition noise_sigs ::
  "dataframe \<Rightarrow> real list \<Rightarrow> real \<Rightarrow> bool \<Rightarrow> nat \<Rightarrow> error + (real list \<times> real list \<times> real list)" where
  "noise_sigs df mass_frac mass_rsd add_noise nF =
     (if add_noise then
        (case getattr_column df ''d13C_std'' of
           Inl e \<Rightarrow> Inl e
         | Inr d13C_std \<Rightarrow>
             (case getattr_column df ''Fm_std'' of
                Inl e \<Rightarrow> Inl e
              | Inr Fm_std \<Rightarrow>
                  Inr (map (\<lambda>m. m * mass_rsd) mass_frac, drop 2 d13C_std, drop 2 Fm_std)))
      else Inr (replicate nF 0, replicate nF 0, replicate nF 0))"

text \<open>Line 308, one column: \<^verbatim>\<open>(np.random.randn(nF,3)*sigs)[:,j]\<close>.\<close>

definition noise_col :: "(nat \<Rightarrow> nat \<Rightarrow> real) \<Rightarrow> nat \<Rightarrow> real list \<Rightarrow> real list" where
  "noise_col randn j sig = map2 (\<lambda>i s. randn i j * s) [0..<length sig] sig"

definition vadd :: "real list \<Rightarrow> real list \<Rightarrow> real list" where
  "vadd a b = map2 (\<lambda>x y. x + y) a b"

type_synonym fractions = "real list \<times> real list \<times> real list \<times> real list \<times> real list"

definition extract_isotopes ::
  "(string \<Rightarrow> error + dataframe) \<Rightarrow> (nat \<Rightarrow> nat \<Rightarrow> real) \<Rightarrow> sum_data \<Rightarrow> real \<Rightarrow> bool
     \<Rightarrow> error + fractions" where
  "extract_isotopes from_csv randn sum_data mass_rsd add_noise =
     (case load_frame from_csv sum_data of
        Inl e \<Rightarrow> Inl e
      | Inr df \<Rightarrow>
     if py_truthy ''fraction'' \<and> py_truthy ''d13C'' \<and> py_truthy ''d13C_std'' \<and> py_truthy ''Fm''
        \<and> py_truthy ''Fm_std'' \<and> ''ug_frac'' \<notin> set (map fst (df_columns df))
     then Inl (ValueError ''sum_data must have fraction, d13C, d13C_std, Fm, Fm_std, and ug_frac columns'')
     else
     (case df_index df of
        OtherIndex k \<Rightarrow> Inl (ValueError ''sum_data index must be DatetimeIndex'')
      | DatetimeIndex ts \<Rightarrow>
     (case getattr_column df ''fraction'' of
        Inl e \<Rightarrow> Inl e
      | Inr fraction \<Rightarrow>
     (case check_sentinels fraction of
        Inl e \<Rightarrow> Inl e
      | Inr u \<Rightarrow>
     (case elapsed_seconds ts of
        Inl e \<Rightarrow> Inl e
      | Inr secs \<Rightarrow>
     (let t0_frac = butlast (tl secs);
          tf_frac = drop 2 secs;
          nF = length t0_frac
      in
     (case getattr_column df ''ug_frac'' of
        Inl e \<Rightarrow> Inl e
      | Inr ug_frac \<Rightarrow>
     (case getattr_column df ''d13C'' of
        Inl e \<Rightarrow> Inl e
      | Inr d13C \<Rightarrow>
     (case getattr_column df ''Fm'' of
        Inl e \<Rightarrow> Inl e
      | Inr Fm \<Rightarrow>
     (let mass_frac = drop 2 ug_frac;
          d13C_frac = drop 2 d13C;
          Fm_frac = drop 2 Fm
      in
     (case noise_sigs df mass_frac mass_rsd add_noise nF of
        Inl e \<Rightarrow> Inl e
      | Inr (mass_frac_std, d13C_frac_std, Fm_frac_std) \<Rightarrow>
     (let mass_frac' = vadd mass_frac (noise_col randn 0 mass_frac_std);
          d13C_frac' = vadd d13C_frac (noise_col randn 1 d13C_frac_std);
          Fm_frac' = vadd Fm_frac (noise_col randn 2 Fm_frac_std);
          R13_frac = map d13C_to_R13 d13C_frac'
      in Inr (t0_frac, tf_frac, mass_frac', R13_frac, Fm_frac')))))))))))))"

section \<open>\<^verbatim>\<open>isotoperesult.py\<close>: blank correction\<close>

text \<open>
  The arrays are divided elementwise. Where a corrected mass is zero NumPy returns a
  non-finite float; the reals of this model have no such value, and no property below
  depends on the quotient.
\<close>

definition blank_correct ::
  "real list \<Rightarrow> real list \<Rightarrow> real list \<Rightarrow> real list \<Rightarrow> real list
     \<Rightarrow> real list \<times> real list \<times> real list" where
  "blank_correct t0_frac tf_frac mass_frac R13_frac Fm_frac =
     (let bl_flux = (375 / 1000) / 1000;
          bl_Fm = 555 / 1000;
          bl_d13C = - 29;
          bl_R13 = d13C_to_R13 bl_d13C;
          dt = vsub tf_frac t0_frac;
          bl_mass = map (\<lambda>d. bl_flux * d) dt;
          mass_frac_corr = vsub mass_frac bl_mass;
          R13_frac_corr =
            map2 (\<lambda>(m, r) (b, mc). (m * r - b * bl_R13) / mc)
              (zip mass_frac R13_frac) (zip bl_mass mass_frac_corr);
          Fm_frac_corr =
            map2 (\<lambda>(m, f) (b, mc). (m * f - b * bl_Fm) / mc)
              (zip mass_frac Fm_frac) (zip bl_mass mass_frac_corr)
      in (mass_frac_corr, R13_frac_corr, Fm_frac_corr))"

section \<open>\<^verbatim>\<open>isotoperesult.py\<close>: the contribution of each peak to each fraction\<close>

text \<open>
  The forward model (\<^verbatim>\<open>rp.LaplaceTransform\<close>) and the peak set (\<^verbatim>\<open>rp.EnergyComplex\<close>) are
  objects of other modules; only their attributes are read.
\<close>

record laplace_transform =
  lt_A :: mat
  lt_t :: "real list"

record energy_complex =
  ec_peaks :: mat
  ec_peaks_13 :: mat
  ec_phi_hat :: "real list"
  ec_rel_area :: "real list"
  ec_eps :: "real list"

definition dot :: "real list \<Rightarrow> real list \<Rightarrow> real" where
  "dot a b = sum_list (map2 (\<lambda>x y. x * y) a b)"

text \<open>\<^verbatim>\<open>np.inner(A, v)\<close> for a matrix and a vector: the last axes must agree.\<close>

definition np_inner_vec :: "mat \<Rightarrow> real list \<Rightarrow> error + real list" where
  "np_inner_vec A v =
     (if ncols A \<noteq> length v then Inl (ValueError ''shapes not aligned'')
      else Inr (map (\<lambda>row. dot row v) (rows A)))"

text \<open>
  \<^verbatim>\<open>np.inner(A, P.T)\<close>: entry \<open>(t, p)\<close> is the product of row \<open>t\<close> of \<open>A\<close> and column \<open>p\<close>
  of \<open>P\<close>.
\<close>

definition np_inner_T :: "mat \<Rightarrow> mat \<Rightarrow> error + mat" where
  "np_inner_T A P =
     (if ncols A \<noteq> length (rows P) then Inl (ValueError ''shapes not aligned'')
      else Inr (Mat (ncols P) (map (\<lambda>row. map (\<lambda>col. dot row col) (mat_cols P)) (rows A))))"

text \<open>Lines 120-127: the modelled thermograms, in total and for each peak.\<close>

definition thermograms :: "laplace_transform \<Rightarrow> energy_complex \<Rightarrow> error + (real list \<times> real list list)" where
  "thermograms lt ec =
     (case np_inner_vec (lt_A lt) (ec_phi_hat ec) of
        Inl e \<Rightarrow> Inl e
      | Inr g \<Rightarrow>
     (case np_inner_T (lt_A lt) (ec_peaks ec) of
        Inl e \<Rightarrow> Inl e
      | Inr g_peak \<Rightarrow>
     (case np_gradient g of
        Inl e \<Rightarrow> Inl e
      | Inr dg \<Rightarrow>
     (case np_gradient_axis0 g_peak of
        Inl e \<Rightarrow> Inl e
      | Inr dg_peak \<Rightarrow>
          Inr (map uminus dg, map (map uminus) (rows dg_peak))))))"

text \<open>Line 139: the indices of the time grid that lie in \<open>(t0, tf]\<close>, in ascending order.\<close>

definition window :: "real list \<Rightarrow> real \<Rightarrow> real \<Rightarrow> nat list" where
  "window t_tg t0 tf = filter (\<lambda>i. t0 < t_tg ! i \<and> t_tg ! i \<le> tf) [0..<length t_tg]"

text \<open>\<^verbatim>\<open>np.round\<close> rounds a half to the even neighbour.\<close>

definition np_round :: "real \<Rightarrow> int" where
  "np_round x =
     (let f = \<lfloor>x\<rfloor> in
      if x - of_int f < 1 / 2 then f
      else if 1 / 2 < x - of_int f then f + 1
      else if even f then f else f + 1)"

text \<open>\<^verbatim>\<open>np.sum(m, axis=0)\<close> of a selection of rows of a matrix with \<open>n\<close> columns.\<close>

definition col_sums :: "nat \<Rightarrow> real list list \<Rightarrow> real list" where
  "col_sums n rs = map (\<lambda>p. sum_list (map (\<lambda>r. r ! p) rs)) [0..<n]"

text \<open>
  Lines 138-153, the body of the loop for one fraction. Indexing the empty window raises;
  so does a window that reaches beyond the thermogram, and \<^verbatim>\<open>np.average\<close> raises when
  the weights sum to zero.
\<close>

definition frac_row ::
  "real list \<Rightarrow> real list \<Rightarrow> real list list \<Rightarrow> nat \<Rightarrow> real \<times> real
     \<Rightarrow> error + (real list \<times> nat \<times> nat \<times> int)" where
  "frac_row t_tg tot peaks nPeak row =
     (let ind = window t_tg (fst row) (snd row) in
      if ind = [] then Inl (IndexError ''index 0 is out of bounds for axis 0 with size 0'')
      else if list_ex (\<lambda>i. length tot \<le> i) ind then Inl (IndexError ''index out of bounds'')
      else
        let wgt = map (\<lambda>i. tot ! i) ind;
            scl = sum_list wgt
        in if scl = 0 then Inl (ZeroDivisionError ''Weights sum to zero, can't be normalized'')
           else
             let av = sum_list (map2 (\<lambda>i w. real i * w) ind wgt) / scl;
                 ptf_i = map (\<lambda>s. s / sum_list wgt) (col_sums nPeak (map (\<lambda>i. peaks ! i) ind))
             in Inr (ptf_i, hd ind, last ind, np_round av))"

text \<open>Lines 136-153: the loop over the fractions stops at the first exception.\<close>

fun frac_loop ::
  "real list \<Rightarrow> real list \<Rightarrow> real list list \<Rightarrow> nat \<Rightarrow> (real \<times> real) list
     \<Rightarrow> error + (real list \<times> nat \<times> nat \<times> int) list" where
  "frac_loop t_tg tot peaks nPeak [] = Inr []"
| "frac_loop t_tg tot peaks nPeak (row # t) =
     (case frac_row t_tg tot peaks nPeak row of
        Inl e \<Rightarrow> Inl e
      | Inr r \<Rightarrow>
          (case frac_loop t_tg tot peaks nPeak t of
             Inl e \<Rightarrow> Inl e
           | Inr rs \<Rightarrow> Inr (r # rs)))"

type_synonym contributions = "real list list \<times> nat list \<times> nat list \<times> int list"

definition calc_cont_ptf ::
  "laplace_transform \<Rightarrow> energy_complex \<Rightarrow> real list \<Rightarrow> real list \<Rightarrow> error + contributions" where
  "calc_cont_ptf lt ec t0_frac tf_frac =
     (let nFrac = length t0_frac;
          nPeak = ncols (ec_peaks ec)
      in
      if length tf_frac \<noteq> length t0_frac
      then Inl (ValueError ''all the input array dimensions must match exactly'')
      else if nPeak > nFrac
      then Inl (ValueError ''Under constrained problem! nPeaks > nFractions!!'')
      else
        (case thermograms lt ec of
           Inl e \<Rightarrow> Inl e
         | Inr (tot, peaks) \<Rightarrow>
             (case frac_loop (lt_t lt) tot peaks nPeak (zip t0_frac tf_frac) of
                Inl e \<Rightarrow> Inl e
              | Inr rs \<Rightarrow>
                  Inr (map fst rs,
                       map (\<lambda>r. fst (snd r)) rs,
                       map (\<lambda>r. fst (snd (snd r))) rs,
                       map (\<lambda>r. snd (snd (snd r))) rs))))"

section \<open>\<^verbatim>\<open>isotoperesult.py\<close>: \<^verbatim>\<open>IsotopeResult.__init__\<close>\<close>

text \<open>
  The constructor extracts the fractions, corrects them for the blank when asked to,
  stores the fraction table, maps the peaks to the fractions and then runs the
  regressions. The regression stage (lines 535-581: the predicted masses, the two SciPy
  fits \<^verbatim>\<open>least_squares\<close> and \<^verbatim>\<open>nnls\<close>, and the peak table) is the parameter \<open>regress\<close>;
  it receives everything the lines before it have computed.
\<close>

record isotope_result =
  fraction_info :: "real list list"
  peak_info :: "real list list"
  RMSEs :: "real \<times> real \<times> real"

type_synonym regression =
  "laplace_transform \<Rightarrow> energy_complex \<Rightarrow> real list \<times> real list \<times> real list
     \<Rightarrow> contributions \<Rightarrow> error + (real list list \<times> (real \<times> real \<times> real))"

definition IsotopeResult_init ::
  "(string \<Rightarrow> error + dataframe) \<Rightarrow> (nat \<Rightarrow> nat \<Rightarrow> real) \<Rightarrow> regression
     \<Rightarrow> sum_data \<Rightarrow> laplace_transform \<Rightarrow> energy_complex \<Rightarrow> bool \<Rightarrow> real \<Rightarrow> bool
     \<Rightarrow> error + isotope_result" where
  "IsotopeResult_init from_csv randn regress sum_data lt ec do_blank_correct mass_rsd add_noise =
     (case extract_isotopes from_csv randn sum_data mass_rsd add_noise of
        Inl e \<Rightarrow> Inl e
      | Inr (t0_frac, tf_frac, mass_frac0, R13_frac0, Fm_frac0) \<Rightarrow>
     (let (mass_frac, R13_frac, Fm_frac) =
            (if do_blank_correct
             then blank_correct t0_frac tf_frac mass_frac0 R13_frac0 Fm_frac0
             else (mass_frac0, R13_frac0, Fm_frac0));
          nFrac = length t0_frac;
          d13C_frac = map R13_to_d13C R13_frac;
          frac_info =
            map (\<lambda>i. [t0_frac ! i, tf_frac ! i, mass_frac ! i, d13C_frac ! i, Fm_frac ! i])
              [0..<nFrac]
      in
     (case calc_cont_ptf lt ec t0_frac tf_frac of
        Inl e \<Rightarrow> Inl e
      | Inr cont \<Rightarrow>
     (case regress lt ec (mass_frac, R13_frac, Fm_frac) cont of
        Inl e \<Rightarrow> Inl e
      | Inr (peaks_tab, rmses) \<Rightarrow>
          Inr \<lparr>fraction_info = frac_info, peak_info = peaks_tab, RMSEs = rmses\<rparr>))))"

section \<open>Example inputs\<close>

text \<open>
  A run with two fractions after the two sentinel rows, sampled at 0 s, 60 s, 660 s and
  1260 s; once with all six columns and once without the two columns of standard
  deviations.
\<close>

definition table_two_fractions :: dataframe where
  "table_two_fractions =
     \<lparr>df_columns =
        [(''fraction'', [- 1, 0, 1, 2]),
         (''d13C'', [0, 0, - 25, - 24]),
         (''d13C_std'', [0, 0, 1 / 10, 1 / 10]),
         (''Fm'', [0, 0, 1, 9 / 10]),
         (''Fm_std'', [0, 0, 1 / 100, 1 / 100]),
         (''ug_frac'', [0, 0, 100, 120])],
      df_index = DatetimeIndex [0, 60000000000, 660000000000, 1260000000000]\<rparr>"

definition table_without_std :: dataframe where
  "table_without_std =
     \<lparr>df_columns =
        [(''fraction'', [- 1, 0, 1, 2]),
         (''d13C'', [0, 0, - 25, - 24]),
         (''Fm'', [0, 0, 1, 9 / 10]),
         (''ug_frac'', [0, 0, 100, 120])],
      df_index = DatetimeIndex [0, 60000000000, 660000000000, 1260000000000]\<rparr>"

text \<open>
  A forward model on a grid of four times and two energies, with two peaks whose sum is
  the combined curve, and the same peak set with a third peak.
\<close>

definition lt_ex :: laplace_transform where
  "lt_ex = \<lparr>lt_A = Mat 2 [[4, 4], [3, 2], [1, 1], [0, 0]], lt_t = [10, 20, 30, 40]\<rparr>"

definition ec_ex :: energy_complex where
  "ec_ex =
     \<lparr>ec_peaks = Mat 2 [[1, 0], [0, 1]], ec_peaks_13 = Mat 2 [[1, 0], [0, 1]],
      ec_phi_hat = [1, 1], ec_rel_area = [1 / 2, 1 / 2], ec_eps = [0, 1]\<rparr>"

definition ec_three :: energy_complex where
  "ec_three =
     \<lparr>ec_peaks = Mat 3 [[1, 0, 0], [0, 1, 0]], ec_peaks_13 = Mat 3 [[1, 0, 0], [0, 1, 0]],
      ec_phi_hat = [1, 1], ec_rel_area = [1 / 2, 1 / 2, 0], ec_eps = [0, 1]\<rparr>"

section \<open>Properties of \<^verbatim>\<open>core_functions.py\<close>\<close>

text \<open>
  The recursive calls of \<^verbatim>\<open>derivatize\<close> are calls on two 1-d arrays, where the
  function is \<open>derivatize_1d\<close>.
\<close>

lemma derivatize_on_vectors:
  "derivatize (Nd (Arr1 a)) (Nd (Arr1 b)) =
     (case derivatize_1d a b of Inl e \<Rightarrow> Inl e | Inr r \<Rightarrow> Inr (D1 r))"
  by (simp add: derivatize_def derivatize_1d_def derivatize_dims_def assert_len_def
      split: sum.splits)

text \<open>
  C2. The forwarding of \<^verbatim>\<open>calc_L_curve\<close> hands \<^verbatim>\<open>om_max\<close> to the model's method as both
  omega bounds: whatever the method is, it is called with the time data and with the
  keywords that a recording method (\<open>Pair\<close>) receives, and among these \<^verbatim>\<open>om_max\<close> and
  \<^verbatim>\<open>om_min\<close> both hold the caller's \<^verbatim>\<open>om_max\<close>; the caller's \<^verbatim>\<open>om_min\<close> is dropped.
\<close>

theorem calc_L_curve_forwards_om_max:
  "calc_L_curve m td ax plot nOm om_max om_min =
     m td (snd (calc_L_curve Pair td ax plot nOm om_max om_min))
   \<and> kw_om_max (snd (calc_L_curve Pair td ax plot nOm om_max om_min)) = om_max
   \<and> kw_om_min (snd (calc_L_curve Pair td ax plot nOm om_max om_min)) = om_max
   \<and> calc_L_curve m td ax plot nOm om_max om_min = calc_L_curve m td ax plot nOm om_max om_min'"
  by (simp add: calc_L_curve_def)

text \<open>
  C2 as written (both bounds receive \<^verbatim>\<open>om_min\<close>) fails at the default arguments
  \<^verbatim>\<open>om_max = 1e2\<close>, \<^verbatim>\<open>om_min = 1e-3\<close>.
\<close>

theorem calc_L_curve_om_min_counterexample:
  "\<not> (kw_om_max (snd (calc_L_curve Pair () (None :: unit option) False 150 100 (1 / 1000))) = 1 / 1000
      \<and> kw_om_min (snd (calc_L_curve Pair () (None :: unit option) False 150 100 (1 / 1000))) = 1 / 1000)"
  by (simp add: calc_L_curve_def)

text \<open>
  C3. A scalar denominator is rejected: for a Python number the type check of
  \<^verbatim>\<open>derivatize\<close> raises \<^verbatim>\<open>ArrayError\<close>, and a 0-d array passes the check and fails at
  \<^verbatim>\<open>len(denom)\<close>; this holds for every numerator, scalar or not.
\<close>

theorem derivatize_scalar_denom_raises:
  "derivatize num (PyInt k) = Inl (ArrayError ''denom must be array-like'')
   \<and> derivatize num (PyFloat d) = Inl (ArrayError ''denom must be array-like'')
   \<and> derivatize num (Nd0 d) = Inl (TypeError ''len() of unsized object'')"
  by (simp add: derivatize_def)

text \<open>
  C3 as written (an all-infinite or all-NaN result, no error) fails for an array
  numerator and for a scalar numerator.
\<close>

theorem derivatize_scalar_denom_counterexample:
  "(\<nexists>r. derivatize (Nd (Arr1 [1, 2, 3])) (PyInt 2) = Inr r)
   \<and> (\<nexists>r. derivatize (PyInt 1) (PyInt 2) = Inr r)"
  by (simp add: derivatize_def)




section \<open>Properties of the isotope scales\<close>

lemma float64_of_in_range: "\<bar>x\<bar> < float_overflow \<Longrightarrow> float64_of x = Finite x"
  by (simp add: float64_of_def abs_less_iff)

lemma float64_of_out_of_range:
  "float_overflow \<le> \<bar>x\<bar> \<Longrightarrow> float64_of x = PosInf \<or> float64_of x = NegInf"
  by (auto simp: float64_of_def abs_if split: if_splits)

lemma float_overflow_large: "1000000 < float_overflow"
  by (simp add: float_overflow_def)

lemma d13C_roundtrip_float64:
  assumes "\<bar>x\<bar> < float_overflow"
  shows "R13_to_d13C_float64 (d13C_to_R13_float64 (Finite x)) = Finite x"
proof -
  note L = float_overflow_large
  have a: "\<bar>x / 1000\<bar> < float_overflow"
    using assms L unfolding abs_less_iff by linarith
  have b: "\<bar>x / 1000 + 1\<bar> < float_overflow"
    using assms L unfolding abs_less_iff by linarith
  have "\<bar>(x / 1000 + 1) * Rpdb\<bar> \<le> \<bar>x\<bar> / 1000 + 1"
    unfolding Rpdb_def by (simp add: abs_mult)
  then have c: "\<bar>(x / 1000 + 1) * Rpdb\<bar> < float_overflow"
    using assms L by linarith
  have d: "(x / 1000 + 1) * Rpdb / Rpdb = x / 1000 + 1"
    by (simp add: Rpdb_def)
  have e: "x / 1000 + 1 + - 1 = x / 1000" "x / 1000 * 1000 = x"
    by simp_all
  have e1: "float64_of (x / 1000) = Finite (x / 1000)"
    using a by (rule float64_of_in_range)
  have e2: "float64_of (x / 1000 + 1) = Finite (x / 1000 + 1)"
    using b by (rule float64_of_in_range)
  have e3: "float64_of ((x / 1000 + 1) * Rpdb) = Finite ((x / 1000 + 1) * Rpdb)"
    using c by (rule float64_of_in_range)
  have e4: "float64_of x = Finite x"
    using assms by (rule float64_of_in_range)
  show ?thesis
    by (simp only: d13C_to_R13_float64_def R13_to_d13C_float64_def np_div_const.simps
        np_add_const.simps np_mul_const.simps e1 e2 e3 d e e4)
qed

lemma R13_roundtrip_float64:
  assumes "\<bar>R13_to_d13C r\<bar> < float_overflow"
  shows "d13C_to_R13_float64 (R13_to_d13C_float64 (Finite r)) = Finite r"
proof -
  note L = float_overflow_large
  from assms have d: "\<bar>(r / Rpdb - 1) * 1000\<bar> < float_overflow"
    by (simp only: R13_to_d13C_def)
  have b: "\<bar>r / Rpdb + - 1\<bar> < float_overflow"
    using d L unfolding Rpdb_def abs_less_iff by (simp add: algebra_simps)
  have a: "\<bar>r / Rpdb\<bar> < float_overflow"
    using d L unfolding Rpdb_def abs_less_iff by (simp add: algebra_simps)
  have c: "\<bar>r\<bar> < float_overflow"
    using a L unfolding Rpdb_def abs_less_iff by (simp add: algebra_simps)
  have d': "\<bar>(r / Rpdb + - 1) * 1000\<bar> < float_overflow"
    using d by simp
  have e: "(r / Rpdb + - 1) * 1000 / 1000 = r / Rpdb + - 1" "r / Rpdb + - 1 + 1 = r / Rpdb"
    "r / Rpdb * Rpdb = r"
    by (simp_all add: Rpdb_def)
  have e1: "float64_of (r / Rpdb) = Finite (r / Rpdb)"
    using a by (rule float64_of_in_range)
  have e2: "float64_of (r / Rpdb + - 1) = Finite (r / Rpdb + - 1)"
    using b by (rule float64_of_in_range)
  have e3: "float64_of ((r / Rpdb + - 1) * 1000) = Finite ((r / Rpdb + - 1) * 1000)"
    using d' by (rule float64_of_in_range)
  have e4: "float64_of r = Finite r"
    using c by (rule float64_of_in_range)
  show ?thesis
    by (simp only: d13C_to_R13_float64_def R13_to_d13C_float64_def np_div_const.simps
        np_add_const.simps np_mul_const.simps e1 e2 e3 e e4)
qed

lemma R13_roundtrip_overflow:
  assumes "float_overflow \<le> \<bar>R13_to_d13C r\<bar>"
  shows "d13C_to_R13_float64 (R13_to_d13C_float64 (Finite r)) = PosInf
       \<or> d13C_to_R13_float64 (R13_to_d13C_float64 (Finite r)) = NegInf"
proof -
  from assms have d: "float_overflow \<le> \<bar>(r / Rpdb - 1) * 1000\<bar>"
    by (simp add: R13_to_d13C_def)
  have "R13_to_d13C_float64 (Finite r) = PosInf \<or> R13_to_d13C_float64 (Finite r) = NegInf"
  proof (cases "\<bar>r / Rpdb\<bar> < float_overflow")
    case a: True
    show ?thesis
    proof (cases "\<bar>r / Rpdb - 1\<bar> < float_overflow")
      case True
      with a float64_of_out_of_range [OF d] show ?thesis
        by (simp add: R13_to_d13C_float64_def float64_of_in_range)
    next
      case False
      then have "float_overflow \<le> \<bar>r / Rpdb - 1\<bar>" by simp
      from float64_of_out_of_range [OF this] a show ?thesis
        by (auto simp: R13_to_d13C_float64_def float64_of_in_range)
    qed
  next
    case False
    then have "float_overflow \<le> \<bar>r / Rpdb\<bar>" by simp
    from float64_of_out_of_range [OF this] show ?thesis
      by (auto simp: R13_to_d13C_float64_def)
  qed
  then show ?thesis
    by (auto simp: d13C_to_R13_float64_def)
qed

text \<open>
  C5. Over exact arithmetic the two isotope scales invert each other: converting
  \<open>d13C\<close> to \<open>R13\<close> and back returns the value, and so does \<open>R13\<close> to \<open>d13C\<close> and back. On
  floats (rounding left out) the round trip from a finite \<open>d13C\<close> returns the value, and
  the round trip from \<open>R13\<close> returns it as long as the \<open>d13C\<close> in between is within the
  float range; once that \<open>d13C\<close> leaves the range, the round trip ends in an infinity.
\<close>

theorem d13C_R13_roundtrip:
  "R13_to_d13C (d13C_to_R13 x) = x \<and> d13C_to_R13 (R13_to_d13C r) = r
   \<and> (\<bar>x\<bar> < float_overflow \<longrightarrow>
        R13_to_d13C_float64 (d13C_to_R13_float64 (Finite x)) = Finite x)
   \<and> (\<bar>R13_to_d13C r\<bar> < float_overflow \<longrightarrow>
        d13C_to_R13_float64 (R13_to_d13C_float64 (Finite r)) = Finite r)
   \<and> (float_overflow \<le> \<bar>R13_to_d13C r\<bar> \<longrightarrow>
        d13C_to_R13_float64 (R13_to_d13C_float64 (Finite r)) = PosInf
        \<or> d13C_to_R13_float64 (R13_to_d13C_float64 (Finite r)) = NegInf)"
proof -
  have "R13_to_d13C (d13C_to_R13 x) = x" "d13C_to_R13 (R13_to_d13C r) = r"
    by (simp_all add: R13_to_d13C_def d13C_to_R13_def Rpdb_def field_simps)
  then show ?thesis
    using d13C_roundtrip_float64 [of x] R13_roundtrip_float64 [of r] R13_roundtrip_overflow [of r]
    by blast
qed

theorem d13C_R13_roundtrip_witness:
  "\<bar>- 25 :: real\<bar> < float_overflow
   \<and> R13_to_d13C_float64 (d13C_to_R13_float64 (Finite (- 25))) = Finite (- 25)
   \<and> \<bar>R13_to_d13C (11 / 1000)\<bar> < float_overflow
   \<and> d13C_to_R13_float64 (R13_to_d13C_float64 (Finite (11 / 1000))) = Finite (11 / 1000)
   \<and> float_overflow \<le> \<bar>R13_to_d13C (2 ^ 1020)\<bar>
   \<and> (d13C_to_R13_float64 (R13_to_d13C_float64 (Finite (2 ^ 1020))) = PosInf
        \<or> d13C_to_R13_float64 (R13_to_d13C_float64 (Finite (2 ^ 1020))) = NegInf)"
proof -
  have h1: "\<bar>- 25 :: real\<bar> < float_overflow"
    by (simp add: float_overflow_def)
  have h2: "\<bar>R13_to_d13C (11 / 1000)\<bar> < float_overflow"
    by (simp add: R13_to_d13C_def Rpdb_def float_overflow_def)
  have h3: "float_overflow \<le> \<bar>R13_to_d13C (2 ^ 1020)\<bar>"
    by (simp add: R13_to_d13C_def Rpdb_def float_overflow_def)
  note T = d13C_R13_roundtrip [of "- 25" "11 / 1000"]
  note U = d13C_R13_roundtrip [of 0 "2 ^ 1020"]
  show ?thesis
    by (intro conjI h1 h2 h3
        T [THEN conjunct2, THEN conjunct2, THEN conjunct1, THEN mp, OF h1]
        T [THEN conjunct2, THEN conjunct2, THEN conjunct2, THEN conjunct1, THEN mp, OF h2]
        U [THEN conjunct2, THEN conjunct2, THEN conjunct2, THEN conjunct2, THEN mp, OF h3])
qed

text \<open>
  C5 as written (a round trip to float precision for every finite input, in both
  directions) fails on floats for large \<open>R13\<close>: at \<open>2^1020\<close>, a float, the division by
  \<open>Rpdb\<close> overflows, and at \<open>3e303\<close> the multiplication with 1000 does; both round trips
  end in the infinity.
\<close>

theorem R13_roundtrip_counterexample:
  "\<bar>2 ^ 1020 :: real\<bar> < float_overflow
   \<and> d13C_to_R13_float64 (R13_to_d13C_float64 (Finite (2 ^ 1020))) = PosInf
   \<and> \<bar>3 * 10 ^ 303 :: real\<bar> < float_overflow
   \<and> d13C_to_R13_float64 (R13_to_d13C_float64 (Finite (3 * 10 ^ 303))) = PosInf"
  by (simp add: d13C_to_R13_float64_def R13_to_d13C_float64_def float64_of_def Rpdb_def
      float_overflow_def)

section \<open>Properties of the extraction\<close>

lemma noise_sigs_off:
  "noise_sigs df mass_frac mass_rsd False nF = Inr (replicate nF 0, replicate nF 0, replicate nF 0)"
  by (simp add: noise_sigs_def)

lemma noise_col_zero: "noise_col randn j (replicate n 0) = replicate n 0"
  by (simp add: noise_col_def map_replicate_const list_eq_iff_nth_eq)

lemma noise_col_two_zeros: "noise_col randn j [0, 0] = [0, 0]"
  using noise_col_zero [of randn j 2] by (simp add: eval_nat_numeral)

lemma extract_isotopes_randn:
  "extract_isotopes from_csv randn sum_data mass_rsd False
     = extract_isotopes from_csv randn' sum_data mass_rsd False"
  unfolding extract_isotopes_def Let_def noise_sigs_off
  by (simp add: noise_col_zero cong: if_cong sum.case_cong pd_index.case_cong)

lemma extract_isotopes_lengths:
  assumes "extract_isotopes from_csv randn sum_data mass_rsd add_noise = Inr (t0, tf, m, r, f)"
  shows "length tf = length t0"
proof -
  have "length (drop 2 secs) = length (butlast (tl secs))" for secs :: "real list"
    by simp
  with assms show ?thesis
    unfolding extract_isotopes_def Let_def
    by (auto split: sum.splits if_splits pd_index.splits prod.splits)
qed

lemma elapsed_seconds_ex:
  "elapsed_seconds [0, 60000000000, 660000000000, 1260000000000] = Inr [0, 60, 660, 1260]"
  by (simp add: elapsed_seconds_def)

lemma check_sentinels_ex: "check_sentinels [- 1, 0, 1, 2] = Inr ()"
  by (simp add: check_sentinels_def series_at_def)

lemma extract_two_fractions:
  "extract_isotopes from_csv randn (DataFrame table_two_fractions) mass_rsd False =
     Inr ([60, 660], [660, 1260], [100, 120], [d13C_to_R13 (- 25), d13C_to_R13 (- 24)], [1, 9 / 10])"
proof -
  have ix: "df_index table_two_fractions
              = DatetimeIndex [0, 60000000000, 660000000000, 1260000000000]"
    and cols: "getattr_column table_two_fractions ''fraction'' = Inr [- 1, 0, 1, 2]"
      "getattr_column table_two_fractions ''ug_frac'' = Inr [0, 0, 100, 120]"
      "getattr_column table_two_fractions ''d13C'' = Inr [0, 0, - 25, - 24]"
      "getattr_column table_two_fractions ''Fm'' = Inr [0, 0, 1, 9 / 10]"
    and chk: "''ug_frac'' \<in> set (map fst (df_columns table_two_fractions))"
    by (simp_all add: getattr_column_def table_two_fractions_def)
  show ?thesis
    unfolding extract_isotopes_def Let_def noise_sigs_off
    by (simp add: ix cols chk elapsed_seconds_ex check_sentinels_ex noise_col_two_zeros vadd_def
        del: set_map)
qed

text \<open>
  C1. The column check of line 275 tests \<^verbatim>\<open>ug_frac\<close> only (the other five names are
  non-empty strings, which \<^verbatim>\<open>and\<close> takes as true): a table that lacks \<^verbatim>\<open>d13C_std\<close> and
  \<^verbatim>\<open>Fm_std\<close> passes every check, and without noise the extraction returns its fractions
  instead of raising the validation error.
\<close>

theorem extract_isotopes_accepts_missing_columns:
  "''d13C_std'' \<notin> set (map fst (df_columns table_without_std))
   \<and> ''Fm_std'' \<notin> set (map fst (df_columns table_without_std))
   \<and> extract_isotopes from_csv randn (DataFrame table_without_std) mass_rsd False =
       Inr ([60, 660], [660, 1260], [100, 120],
            [d13C_to_R13 (- 25), d13C_to_R13 (- 24)], [1, 9 / 10])"
proof -
  have ix: "df_index table_without_std
              = DatetimeIndex [0, 60000000000, 660000000000, 1260000000000]"
    and cols: "getattr_column table_without_std ''fraction'' = Inr [- 1, 0, 1, 2]"
      "getattr_column table_without_std ''ug_frac'' = Inr [0, 0, 100, 120]"
      "getattr_column table_without_std ''d13C'' = Inr [0, 0, - 25, - 24]"
      "getattr_column table_without_std ''Fm'' = Inr [0, 0, 1, 9 / 10]"
    and chk: "''ug_frac'' \<in> set (map fst (df_columns table_without_std))"
    by (simp_all add: getattr_column_def table_without_std_def)
  have "extract_isotopes from_csv randn (DataFrame table_without_std) mass_rsd False =
       Inr ([60, 660], [660, 1260], [100, 120],
            [d13C_to_R13 (- 25), d13C_to_R13 (- 24)], [1, 9 / 10])"
    unfolding extract_isotopes_def Let_def noise_sigs_off
    by (simp add: ix cols chk elapsed_seconds_ex check_sentinels_ex noise_col_two_zeros vadd_def
        del: set_map)
  then show ?thesis
    by (simp add: table_without_std_def)
qed

text \<open>
  C9. Without noise every standard deviation is zero, so each column of perturbations is
  zero whatever \<^verbatim>\<open>randn\<close> draws; the extraction and the construction of the result then
  do not depend on the draw: two runs on the same inputs return the same value.
\<close>

theorem no_noise_is_deterministic:
  "noise_sigs df mass_frac mass_rsd False nF = Inr (replicate nF 0, replicate nF 0, replicate nF 0)
   \<and> noise_col randn j (replicate nF 0) = replicate nF 0
   \<and> extract_isotopes from_csv randn sum_data mass_rsd False
       = extract_isotopes from_csv randn' sum_data mass_rsd False
   \<and> IsotopeResult_init from_csv randn regress sum_data lt ec bc mass_rsd False
       = IsotopeResult_init from_csv randn' regress sum_data lt ec bc mass_rsd False"
  using extract_isotopes_randn [of from_csv randn sum_data mass_rsd randn']
  by (simp add: noise_sigs_off noise_col_zero IsotopeResult_init_def)

section \<open>Properties of the contribution mapping\<close>

subsection \<open>The loop over the fractions\<close>

lemma frac_loop_empty_window:
  "row \<in> set t \<Longrightarrow> window t_tg (fst row) (snd row) = [] \<Longrightarrow>
     \<exists>e. frac_loop t_tg tot peaks nPeak t = Inl e"
proof (induction t)
  case Nil
  then show ?case by simp
next
  case (Cons a t)
  show ?case
  proof (cases "frac_row t_tg tot peaks nPeak a")
    case (Inl e)
    then show ?thesis by simp
  next
    case (Inr r)
    with Cons.prems have "row \<noteq> a"
      by (auto simp: frac_row_def)
    with Cons obtain e where "frac_loop t_tg tot peaks nPeak t = Inl e"
      by auto
    with Inr show ?thesis by simp
  qed
qed

lemma frac_loop_rows:
  "frac_loop t_tg tot peaks nPeak t = Inr rs \<Longrightarrow>
     length rs = length t \<and> (\<forall>i<length t. frac_row t_tg tot peaks nPeak (t ! i) = Inr (rs ! i))"
proof (induction t arbitrary: rs)
  case Nil
  then show ?case by simp
next
  case (Cons a t)
  then obtain r rs' where r: "frac_row t_tg tot peaks nPeak a = Inr r"
    and rs': "frac_loop t_tg tot peaks nPeak t = Inr rs'" and rs: "rs = r # rs'"
    by (auto split: sum.splits)
  from Cons.IH [OF rs'] r rs show ?case
    by (auto simp: nth_Cons split: nat.splits)
qed

lemma calc_cont_ptf_underconstrained:
  "length tf = length t0 \<Longrightarrow> length t0 < ncols (ec_peaks ec) \<Longrightarrow>
     calc_cont_ptf lt ec t0 tf = Inl (ValueError ''Under constrained problem! nPeaks > nFractions!!'')"
  by (simp add: calc_cont_ptf_def)

lemma calc_cont_ptf_empty_window:
  assumes "i < length t0" "window (lt_t lt) (t0 ! i) (tf ! i) = []"
  shows "\<exists>e. calc_cont_ptf lt ec t0 tf = Inl e"
proof (cases "length tf = length t0")
  case True
  then have "(t0 ! i, tf ! i) \<in> set (zip t0 tf)"
    using assms by (auto simp: set_zip)
  then have "frac_loop (lt_t lt) tot peaks nPeak (zip t0 tf) \<noteq> Inr rs" for tot peaks nPeak rs
    using assms(2) frac_loop_empty_window [of "(t0 ! i, tf ! i)" "zip t0 tf" "lt_t lt" tot peaks nPeak]
    by auto
  then show ?thesis
    unfolding calc_cont_ptf_def Let_def
    by (auto split: sum.splits prod.splits)
next
  case False
  then show ?thesis
    by (simp add: calc_cont_ptf_def)
qed

lemma IsotopeResult_init_mapping_error:
  assumes "extract_isotopes from_csv randn sum_data mass_rsd add_noise = Inr (t0, tf, m, r, f)"
    and "calc_cont_ptf lt ec t0 tf = Inl e"
  shows "IsotopeResult_init from_csv randn regress sum_data lt ec bc mass_rsd add_noise = Inl e"
  using assms unfolding IsotopeResult_init_def Let_def
  by (simp split: prod.splits)

lemma calc_cont_ptf_row:
  assumes "calc_cont_ptf lt ec t0 tf = Inr (cont, ind_min, ind_max, ind_wgh)" and "i < length t0"
  shows "\<exists>tot peaks. thermograms lt ec = Inr (tot, peaks)
     \<and> frac_row (lt_t lt) tot peaks (ncols (ec_peaks ec)) (t0 ! i, tf ! i)
         = Inr (cont ! i, ind_min ! i, ind_max ! i, ind_wgh ! i)"
proof -
  from assms(1) obtain tot peaks rs where len: "length tf = length t0"
    and th: "thermograms lt ec = Inr (tot, peaks)"
    and loop: "frac_loop (lt_t lt) tot peaks (ncols (ec_peaks ec)) (zip t0 tf) = Inr rs"
    and out: "cont = map fst rs" "ind_min = map (\<lambda>r. fst (snd r)) rs"
      "ind_max = map (\<lambda>r. fst (snd (snd r))) rs" "ind_wgh = map (\<lambda>r. snd (snd (snd r))) rs"
    unfolding calc_cont_ptf_def Let_def
    by (auto split: if_splits sum.splits prod.splits)
  from frac_loop_rows [OF loop] len assms(2)
  have "length rs = length t0"
    and "frac_row (lt_t lt) tot peaks (ncols (ec_peaks ec)) (t0 ! i, tf ! i) = Inr (rs ! i)"
    by auto
  with th out assms(2) show ?thesis
    by simp
qed

lemma map2_of_map: "map2 f xs (map g xs) = map (\<lambda>x. f x (g x)) xs"
  by (induction xs) auto

lemma frac_row_Inr:
  assumes "frac_row t_tg tot peaks nPeak (a, b) = Inr (ptf, imin, imax, iwgh)"
  shows "window t_tg a b \<noteq> []"
    and "\<forall>j\<in>set (window t_tg a b). j < length tot"
    and "sum_list (map (\<lambda>j. tot ! j) (window t_tg a b)) \<noteq> 0"
    and "ptf = map (\<lambda>s. s / sum_list (map (\<lambda>j. tot ! j) (window t_tg a b)))
                 (col_sums nPeak (map (\<lambda>j. peaks ! j) (window t_tg a b)))"
    and "imin = hd (window t_tg a b)" and "imax = last (window t_tg a b)"
    and "iwgh = np_round (sum_list (map (\<lambda>j. real j * tot ! j) (window t_tg a b))
                           / sum_list (map (\<lambda>j. tot ! j) (window t_tg a b)))"
  using assms unfolding frac_row_def Let_def
  by (auto simp: list_ex_iff map2_of_map not_le split: if_splits)

subsection \<open>Structural failures\<close>

text \<open>
  C6. With more (combined) peaks than fractions the contribution mapping raises the
  under-constrained \<^verbatim>\<open>ValueError\<close>, whatever the forward model and the rest of the peak
  set are: none of the forward-model computation is reached. The constructor, whose
  extraction has produced these fractions, fails with the same error, whatever the
  regression stage is.
\<close>

theorem underconstrained_is_fatal:
  assumes "length t0_frac < ncols (ec_peaks ec)"
  shows "(length tf_frac = length t0_frac \<longrightarrow>
            calc_cont_ptf lt ec t0_frac tf_frac
              = Inl (ValueError ''Under constrained problem! nPeaks > nFractions!!''))
     \<and> (extract_isotopes from_csv randn sum_data mass_rsd add_noise
            = Inr (t0_frac, tf_frac, mass_frac, R13_frac, Fm_frac) \<longrightarrow>
          IsotopeResult_init from_csv randn regress sum_data lt ec bc mass_rsd add_noise
            = Inl (ValueError ''Under constrained problem! nPeaks > nFractions!!''))"
proof (intro conjI impI)
  assume "length tf_frac = length t0_frac"
  then show "calc_cont_ptf lt ec t0_frac tf_frac
      = Inl (ValueError ''Under constrained problem! nPeaks > nFractions!!'')"
    using assms by (rule calc_cont_ptf_underconstrained)
next
  assume ex: "extract_isotopes from_csv randn sum_data mass_rsd add_noise
      = Inr (t0_frac, tf_frac, mass_frac, R13_frac, Fm_frac)"
  then have "length tf_frac = length t0_frac"
    by (rule extract_isotopes_lengths)
  then have "calc_cont_ptf lt ec t0_frac tf_frac
      = Inl (ValueError ''Under constrained problem! nPeaks > nFractions!!'')"
    using assms by (rule calc_cont_ptf_underconstrained)
  with ex show "IsotopeResult_init from_csv randn regress sum_data lt ec bc mass_rsd add_noise
      = Inl (ValueError ''Under constrained problem! nPeaks > nFractions!!'')"
    by (rule IsotopeResult_init_mapping_error)
qed

theorem underconstrained_is_fatal_witness:
  "length [60, 660 :: real] < ncols (ec_peaks ec_three)
   \<and> calc_cont_ptf lt_ex ec_three [60, 660] [660, 1260]
       = Inl (ValueError ''Under constrained problem! nPeaks > nFractions!!'')
   \<and> IsotopeResult_init (\<lambda>p. Inl (ValueError ''no file'')) (\<lambda>i j. 0)
        (\<lambda>lt ec fr cont. Inl (ValueError ''regression reached''))
        (DataFrame table_two_fractions) lt_ex ec_three True (1 / 100) False
       = Inl (ValueError ''Under constrained problem! nPeaks > nFractions!!'')"
proof -
  have h: "length [60, 660 :: real] < ncols (ec_peaks ec_three)"
    by (simp add: ec_three_def)
  have l: "length [660, 1260 :: real] = length [60, 660 :: real]"
    by simp
  note T = underconstrained_is_fatal [OF h, of "[660, 1260]" lt_ex
      "\<lambda>p. Inl (ValueError ''no file'')" "\<lambda>i j. 0" "DataFrame table_two_fractions" "1 / 100" False
      "[100, 120]" "[d13C_to_R13 (- 25), d13C_to_R13 (- 24)]" "[1, 9 / 10]"
      "\<lambda>lt ec fr cont. Inl (ValueError ''regression reached'')" True]
  show ?thesis
    by (intro conjI h T [THEN conjunct1, THEN mp, OF l]
        T [THEN conjunct2, THEN mp, OF extract_two_fractions])
qed

text \<open>
  C8. A fraction whose window \<open>(t0, tf]\<close> holds no point of the time grid is fatal: the
  loop body raises \<^verbatim>\<open>IndexError\<close> when it reads the first index of the empty window,
  the contribution mapping returns an error, and the constructor fails with an error
  that does not depend on the regression stage, which is never run.
\<close>

theorem empty_window_is_fatal:
  assumes "i < length t0_frac"
    and "window (lt_t lt) (t0_frac ! i) (tf_frac ! i) = []"
  shows "frac_row (lt_t lt) tot peaks nPeak (t0_frac ! i, tf_frac ! i)
           = Inl (IndexError ''index 0 is out of bounds for axis 0 with size 0'')
     \<and> (\<exists>e. calc_cont_ptf lt ec t0_frac tf_frac = Inl e)
     \<and> (extract_isotopes from_csv randn sum_data mass_rsd add_noise
            = Inr (t0_frac, tf_frac, mass_frac, R13_frac, Fm_frac) \<longrightarrow>
          (\<exists>e. \<forall>regress.
             IsotopeResult_init from_csv randn regress sum_data lt ec bc mass_rsd add_noise = Inl e))"
proof (intro conjI impI)
  show "frac_row (lt_t lt) tot peaks nPeak (t0_frac ! i, tf_frac ! i)
      = Inl (IndexError ''index 0 is out of bounds for axis 0 with size 0'')"
    using assms(2) by (simp add: frac_row_def)
next
  show "\<exists>e. calc_cont_ptf lt ec t0_frac tf_frac = Inl e"
    using assms by (rule calc_cont_ptf_empty_window)
next
  assume ex: "extract_isotopes from_csv randn sum_data mass_rsd add_noise
      = Inr (t0_frac, tf_frac, mass_frac, R13_frac, Fm_frac)"
  from assms obtain e where "calc_cont_ptf lt ec t0_frac tf_frac = Inl e"
    using calc_cont_ptf_empty_window by blast
  with ex have "IsotopeResult_init from_csv randn regress sum_data lt ec bc mass_rsd add_noise = Inl e"
    for regress
    by (rule IsotopeResult_init_mapping_error)
  then show "\<exists>e. \<forall>regress.
      IsotopeResult_init from_csv randn regress sum_data lt ec bc mass_rsd add_noise = Inl e"
    by blast
qed

lemma window_ex_empty: "window (lt_t lt_ex) ([60, 660] ! 0) ([660, 1260] ! 0) = []"
  by (simp add: window_def lt_ex_def upt_rec)

theorem empty_window_is_fatal_witness:
  "(0 :: nat) < length [60, 660 :: real]
   \<and> window (lt_t lt_ex) ([60, 660] ! 0) ([660, 1260] ! 0) = []
   \<and> (\<exists>e. calc_cont_ptf lt_ex ec_ex [60, 660] [660, 1260] = Inl e)
   \<and> (\<exists>e. \<forall>regress.
         IsotopeResult_init (\<lambda>p. Inl (ValueError ''no file'')) (\<lambda>i j. 0) regress
           (DataFrame table_two_fractions) lt_ex ec_ex False (1 / 100) False = Inl e)"
proof -
  have h: "(0 :: nat) < length [60, 660 :: real]"
    by simp
  note T = empty_window_is_fatal [OF h window_ex_empty, of "[]" "[]" 0 ec_ex
      "\<lambda>p. Inl (ValueError ''no file'')" "\<lambda>i j. 0" "DataFrame table_two_fractions" "1 / 100" False
      "[100, 120]" "[d13C_to_R13 (- 25), d13C_to_R13 (- 24)]" "[1, 9 / 10]" False]
  show ?thesis
    by (intro conjI h window_ex_empty T [THEN conjunct2, THEN conjunct1]
        T [THEN conjunct2, THEN conjunct2, THEN mp, OF extract_two_fractions])
qed

subsection \<open>Sums over rows and columns\<close>












subsection \<open>The example mapping\<close>

lemma thermograms_ex:
  "thermograms lt_ex ec_ex = Inr ([3, 3, 5 / 2, 2], [[1, 2], [3 / 2, 3 / 2], [3 / 2, 1], [1, 1]])"
  by (simp add: thermograms_def lt_ex_def ec_ex_def np_inner_vec_def np_inner_T_def dot_def
      mat_cols_def np_gradient_def np_gradient_axis0_def grad_at_def vsub_def vhalf_def upt_rec)

lemma window_ex: "window [10, 20, 30, 40] 0 20 = [0, 1]" "window [10, 20, 30, 40] 20 40 = [2, 3]"
  by (simp_all add: window_def upt_rec)

lemma frac_row_ex:
  "frac_row [10, 20, 30, 40] [3, 3, 5 / 2, 2] [[1, 2], [3 / 2, 3 / 2], [3 / 2, 1], [1, 1]] 2 (0, 20)
     = Inr ([5 / 12, 7 / 12], 0, 1, 0)"
  "frac_row [10, 20, 30, 40] [3, 3, 5 / 2, 2] [[1, 2], [3 / 2, 3 / 2], [3 / 2, 1], [1, 1]] 2 (20, 40)
     = Inr ([5 / 9, 4 / 9], 2, 3, 2)"
  by (simp_all add: frac_row_def window_ex col_sums_def np_round_def upt_rec Let_def)

lemma calc_cont_ptf_ex:
  "calc_cont_ptf lt_ex ec_ex [0, 20] [20, 40]
     = Inr ([[5 / 12, 7 / 12], [5 / 9, 4 / 9]], [0, 2], [1, 3], [0, 2])"
  unfolding calc_cont_ptf_def Let_def thermograms_ex
  by (simp add: lt_ex_def ec_ex_def frac_row_ex)

subsection \<open>Rows of the contribution matrix\<close>



subsection \<open>The mass-weighted index\<close>

lemma np_round_between:
  assumes "of_int a \<le> x" "x \<le> of_int b"
  shows "a \<le> np_round x \<and> np_round x \<le> b"
proof -
  have lo: "a \<le> \<lfloor>x\<rfloor>" using assms(1) by (simp add: le_floor_iff)
  have hi: "\<lfloor>x\<rfloor> \<le> b" using assms(2) by (simp add: floor_le_iff)
  have up: "\<lfloor>x\<rfloor> + 1 \<le> b" if "of_int \<lfloor>x\<rfloor> < x"
  proof -
    have "of_int \<lfloor>x\<rfloor> < (of_int b :: real)" using that assms(2) by linarith
    then have "\<lfloor>x\<rfloor> < b" by simp
    then show ?thesis by simp
  qed
  show ?thesis
    using lo hi up by (auto simp: np_round_def Let_def)
qed

lemma window_sorted: "sorted (window t_tg a b)"
  by (simp add: window_def sorted_wrt_filter)

lemma window_bounds:
  assumes "i \<in> set (window t_tg a b)"
  shows "hd (window t_tg a b) \<le> i \<and> i \<le> last (window t_tg a b)"
proof -
  let ?w = "window t_tg a b"
  have ne: "?w \<noteq> []" using assms by auto
  obtain k where k: "k < length ?w" "?w ! k = i"
    using assms by (auto simp: in_set_conv_nth)
  have "?w ! 0 \<le> ?w ! k"
    using window_sorted k(1) by (simp add: sorted_iff_nth_mono)
  moreover have "?w ! k \<le> ?w ! (length ?w - 1)"
    using window_sorted [of t_tg a b] k(1) by (intro sorted_nth_mono) auto
  ultimately show ?thesis
    using ne k(2) by (simp add: hd_conv_nth last_conv_nth)
qed

lemma weighted_average_between:
  fixes ind :: "nat list" and w :: "nat \<Rightarrow> real"
  assumes nonneg: "\<forall>i\<in>set ind. 0 \<le> w i"
    and pos: "0 < sum_list (map w ind)"
    and lo: "\<forall>i\<in>set ind. lo \<le> i" and hi: "\<forall>i\<in>set ind. i \<le> hi"
  shows "real lo \<le> sum_list (map (\<lambda>i. real i * w i) ind) / sum_list (map w ind)
       \<and> sum_list (map (\<lambda>i. real i * w i) ind) / sum_list (map w ind) \<le> real hi"
proof -
  let ?S = "sum_list (map w ind)" and ?N = "sum_list (map (\<lambda>i. real i * w i) ind)"
  have "sum_list (map (\<lambda>i. real lo * w i) ind) \<le> ?N"
    using nonneg lo by (intro sum_list_mono mult_right_mono) auto
  then have l: "real lo * ?S \<le> ?N"
    by (simp add: sum_list_const_mult)
  have "?N \<le> sum_list (map (\<lambda>i. real hi * w i) ind)"
    using nonneg hi by (intro sum_list_mono mult_right_mono) auto
  then have h: "?N \<le> real hi * ?S"
    by (simp add: sum_list_const_mult)
  from l h pos show ?thesis
    by (simp add: field_simps)
qed

text \<open>
  C10. For a fraction whose combined rates over its window are non-negative, the values
  \<^verbatim>\<open>_calc_cont_ptf\<close> returns satisfy \<open>ind_min \<le> ind_wgh \<le> ind_max\<close>, where \<open>ind_min\<close> and
  \<open>ind_max\<close> are the first and the last index of the window (which is non-empty, with
  a positive sum of rates, since the function returned).
\<close>

theorem ind_wgh_within_window:
  assumes calc: "calc_cont_ptf lt ec t0_frac tf_frac = Inr (cont_ptf, ind_min, ind_max, ind_wgh)"
    and th: "thermograms lt ec = Inr (tot, peaks)"
    and i: "i < length t0_frac"
    and nonneg: "list_all (\<lambda>j. 0 \<le> tot ! j) (window (lt_t lt) (t0_frac ! i) (tf_frac ! i))"
  shows "window (lt_t lt) (t0_frac ! i) (tf_frac ! i) \<noteq> []
     \<and> 0 < sum_list (map (\<lambda>j. tot ! j) (window (lt_t lt) (t0_frac ! i) (tf_frac ! i)))
     \<and> ind_min ! i = hd (window (lt_t lt) (t0_frac ! i) (tf_frac ! i))
     \<and> ind_max ! i = last (window (lt_t lt) (t0_frac ! i) (tf_frac ! i))
     \<and> int (ind_min ! i) \<le> ind_wgh ! i \<and> ind_wgh ! i \<le> int (ind_max ! i)"
proof -
  let ?ind = "window (lt_t lt) (t0_frac ! i) (tf_frac ! i)"
  let ?av = "sum_list (map (\<lambda>j. real j * tot ! j) ?ind) / sum_list (map (\<lambda>j. tot ! j) ?ind)"
  from calc_cont_ptf_row [OF calc i] th
  have row: "frac_row (lt_t lt) tot peaks (ncols (ec_peaks ec)) (t0_frac ! i, tf_frac ! i)
                  = Inr (cont_ptf ! i, ind_min ! i, ind_max ! i, ind_wgh ! i)"
    by auto
  note R = frac_row_Inr [OF row]
  have nn: "\<forall>j\<in>set ?ind. 0 \<le> tot ! j"
    using nonneg by (simp add: list_all_iff)
  then have "0 \<le> sum_list (map (\<lambda>j. tot ! j) ?ind)"
    by (intro sum_list_nonneg) auto
  with R(3) have pos: "0 < sum_list (map (\<lambda>j. tot ! j) ?ind)"
    by simp
  have bounds: "\<forall>j\<in>set ?ind. hd ?ind \<le> j" "\<forall>j\<in>set ?ind. j \<le> last ?ind"
    using window_bounds by blast+
  from weighted_average_between [OF nn pos bounds]
  have "of_int (int (hd ?ind)) \<le> ?av" and "?av \<le> of_int (int (last ?ind))"
    by simp_all
  from np_round_between [OF this] R(1) pos show ?thesis
    by (simp add: R(5,6,7))
qed

theorem ind_wgh_within_window_witness:
  "calc_cont_ptf lt_ex ec_ex [0, 20] [20, 40]
     = Inr ([[5 / 12, 7 / 12], [5 / 9, 4 / 9]], [0, 2], [1, 3], [0, 2])
   \<and> thermograms lt_ex ec_ex = Inr ([3, 3, 5 / 2, 2], [[1, 2], [3 / 2, 3 / 2], [3 / 2, 1], [1, 1]])
   \<and> list_all (\<lambda>j. 0 \<le> [3, 3, 5 / 2, 2 :: real] ! j) (window (lt_t lt_ex) ([0, 20] ! 1) ([20, 40] ! 1))
   \<and> int ([0, 2] ! 1) \<le> [0, 2] ! 1 \<and> [0, 2] ! 1 \<le> int ([1, 3] ! 1)"
proof -
  have i: "1 < length [0, 20 :: real]"
    by simp
  have nn: "list_all (\<lambda>j. 0 \<le> [3, 3, 5 / 2, 2 :: real] ! j)
      (window (lt_t lt_ex) ([0, 20] ! 1) ([20, 40] ! 1))"
    by (simp add: lt_ex_def window_ex)
  note T = ind_wgh_within_window [OF calc_cont_ptf_ex thermograms_ex i nn]
  show ?thesis
    by (intro conjI calc_cont_ptf_ex thermograms_ex nn
        T [THEN conjunct2, THEN conjunct2, THEN conjunct2, THEN conjunct2, THEN conjunct1]
        T [THEN conjunct2, THEN conjunct2, THEN conjunct2, THEN conjunct2, THEN conjunct2])
qed

end
